theory Spec2Isabelle
  imports Complex_Main
begin

section \<open>Python values\<close>

text \<open>
  Both scripts only reshape the JSON that the vendor client returns. A JSON value is a
  \<open>pyval\<close>; a dict keeps its items in insertion order as an association list whose
  keys are strings. JSON numbers are modelled as integers (the counts and credits the
  scripts read); floating-point numbers are left out.
\<close>

datatype pyval =
    PNone
  | PBool bool
  | PInt int
  | PStr string
  | PList "pyval list"
  | PDict "(string \<times> pyval) list"

text \<open>
  The exceptions the modelled code can raise by itself, and \<open>EnvError msg\<close>: an
  exception raised by the vendor client or by the operating system, with \<open>str(e) = msg\<close>.
  All of them are subclasses of Python's \<open>Exception\<close>.
\<close>

datatype exn = AttributeError | TypeError | KeyError | EnvError string

text \<open>Truth value testing (\<open>if x\<close>, \<open>not x\<close>).\<close>

fun py_truthy :: "pyval \<Rightarrow> bool" where
  "py_truthy PNone = False"
| "py_truthy (PBool b) = b"
| "py_truthy (PInt n) = (n \<noteq> 0)"
| "py_truthy (PStr s) = (s \<noteq> [])"
| "py_truthy (PList xs) = (xs \<noteq> [])"
| "py_truthy (PDict kvs) = (kvs \<noteq> [])"

text \<open>\<open>d.get(key, default)\<close> on the items of a dict.\<close>

definition dict_get :: "(string \<times> pyval) list \<Rightarrow> string \<Rightarrow> pyval \<Rightarrow> pyval" where
  "dict_get kvs key dflt = (case map_of kvs key of None \<Rightarrow> dflt | Some v \<Rightarrow> v)"

text \<open>\<open>x.get(key, default)\<close> on any value: only a dict has the method.\<close>

fun py_get :: "pyval \<Rightarrow> string \<Rightarrow> pyval \<Rightarrow> exn + pyval" where
  "py_get (PDict kvs) key dflt = Inr (dict_get kvs key dflt)"
| "py_get _ key dflt = Inl AttributeError"

text \<open>\<open>x[key]\<close> with a string key.\<close>

fun py_getitem :: "pyval \<Rightarrow> string \<Rightarrow> exn + pyval" where
  "py_getitem (PDict kvs) key = (case map_of kvs key of None \<Rightarrow> Inl KeyError | Some v \<Rightarrow> Inr v)"
| "py_getitem _ key = Inl TypeError"

text \<open>\<open>for x in v\<close>: the elements of a list, the keys of a dict, the characters of a string.\<close>

fun py_iter :: "pyval \<Rightarrow> exn + pyval list" where
  "py_iter (PList xs) = Inr xs"
| "py_iter (PDict kvs) = Inr (map (\<lambda>kv. PStr (fst kv)) kvs)"
| "py_iter (PStr s) = Inr (map (\<lambda>c. PStr [c]) s)"
| "py_iter _ = Inl TypeError"

text \<open>
  A replacement field \<open>{v}\<close> of an f-string. A string is inserted as it is; any other
  value through Python's built-in \<open>str\<close>, which is not code of this repository and is
  taken as the parameter \<open>str_of\<close>.
\<close>

definition py_format :: "(pyval \<Rightarrow> string) \<Rightarrow> pyval \<Rightarrow> string" where
  "py_format str_of v = (case v of PStr s \<Rightarrow> s | _ \<Rightarrow> str_of v)"

section \<open>Page formatting\<close>

definition newline :: string where
  "newline = [CHR 0x0A]"

text \<open>The f-string \<open>f"# {title}\nSource: {source_url}\n\n{content}\n\n---\n"\<close> of both scripts.\<close>

definition formatted_content :: "string \<Rightarrow> string \<Rightarrow> string \<Rightarrow> string" where
  "formatted_content title source_url content =
     ''# '' @ title @ newline @ ''Source: '' @ source_url @ newline @ newline
       @ content @ newline @ newline @ ''---'' @ newline"

text \<open>
  The body of the \<open>try\<close> block of \<open>DocumentationCrawler.process_page\<close>
  (firecrawl-test-v2.py). \<open>Inr None\<close> is \<open>return None\<close>. The calls of the logger do not
  change what is returned and are left out.
\<close>

definition process_page_body :: "(pyval \<Rightarrow> string) \<Rightarrow> pyval \<Rightarrow> exn + string option" where
  "process_page_body str_of page =
     (case py_get page ''extract'' (PStr '''') of
        Inl e \<Rightarrow> Inl e
      | Inr extracted_content \<Rightarrow>
          (case py_get page ''metadata'' (PDict []) of
             Inl e \<Rightarrow> Inl e
           | Inr metadata \<Rightarrow>
               (case py_get metadata ''sourceURL'' (PStr ''Unknown URL'') of
                  Inl e \<Rightarrow> Inl e
                | Inr source_url \<Rightarrow>
                    (case py_get metadata ''title'' (PStr ''Untitled'') of
                       Inl e \<Rightarrow> Inl e
                     | Inr title \<Rightarrow>
                         if \<not> py_truthy extracted_content then Inr None
                         else Inr (Some (formatted_content (py_format str_of title)
                                (py_format str_of source_url)
                                (py_format str_of extracted_content)))))))"

text \<open>\<open>process_page\<close>: \<open>except Exception\<close> turns every exception of the body into \<open>None\<close>.\<close>

definition process_page :: "(pyval \<Rightarrow> string) \<Rightarrow> pyval \<Rightarrow> string option" where
  "process_page str_of page =
     (case process_page_body str_of page of Inl e \<Rightarrow> None | Inr r \<Rightarrow> r)"

text \<open>
  The body of \<open>for page in crawl_data\<close> in \<open>main\<close> of firecrawl-test.py. A page that
  is not a dict is passed over; an exception leaves the loop (it is caught at the end of
  \<open>main\<close>).
\<close>

definition main_v1_page :: "(pyval \<Rightarrow> string) \<Rightarrow> pyval \<Rightarrow> exn + string option" where
  "main_v1_page str_of page =
     (case page of
        PDict kvs \<Rightarrow>
          (let markdown_content = dict_get kvs ''markdown'' (PStr '''');
               metadata = dict_get kvs ''metadata'' (PDict [])
           in case py_get metadata ''sourceURL'' (PStr ''Unknown URL'') of
                Inl e \<Rightarrow> Inl e
              | Inr source_url \<Rightarrow>
                  (case py_get metadata ''title'' (PStr ''Untitled'') of
                     Inl e \<Rightarrow> Inl e
                   | Inr title \<Rightarrow>
                       if py_truthy markdown_content
                       then Inr (Some (formatted_content (py_format str_of title)
                              (py_format str_of source_url)
                              (py_format str_of markdown_content)))
                       else Inr None))
      | _ \<Rightarrow> Inr None)"

section \<open>Output writer\<close>

text \<open>
  The file system maps a path to the text of the file. What the operating system does with
  one \<open>with open(path, "w") as f: f.write(..) ...\<close> block is its \<open>io_fault option\<close>:
  \<open>None\<close> when every operation succeeds, \<open>OpenFails msg\<close> when opening raises,
  \<open>WriteFails n msg\<close> when the first \<open>n\<close> writes succeed and the next operation (a
  write, or closing the file) raises; \<open>msg\<close> is \<open>str(e)\<close> of the exception.
  Opening with mode \<open>"w"\<close> truncates the file. Text is written as it is (strings are
  byte strings here, so the UTF-8 encoding is the identity).
\<close>

type_synonym files = "string \<Rightarrow> string option"

datatype io_fault = OpenFails string | WriteFails nat string

definition open_and_write ::
  "string list \<Rightarrow> string \<Rightarrow> io_fault option \<Rightarrow> files \<Rightarrow> (string + unit) \<times> files" where
  "open_and_write parts path fault fs =
     (case fault of
        None \<Rightarrow> (Inr (), fs(path \<mapsto> concat parts))
      | Some (OpenFails msg) \<Rightarrow> (Inl msg, fs)
      | Some (WriteFails n msg) \<Rightarrow> (Inl msg, fs(path \<mapsto> concat (take n parts))))"

text \<open>\<open>sep.join(xs)\<close> on a list of strings.\<close>

fun py_join :: "string \<Rightarrow> string list \<Rightarrow> string" where
  "py_join sep [] = []"
| "py_join sep [x] = x"
| "py_join sep (x # y # ys) = x @ sep @ py_join sep (y # ys)"

definition header_title :: string where
  "header_title = ''# Technical Documentation Overview'' @ newline @ newline"

definition header_generator :: string where
  "header_generator = ''Generated with Firecrawl'' @ newline @ newline"

text \<open>The three \<open>f.write\<close> calls, the same in both scripts.\<close>

definition document_parts :: "string list \<Rightarrow> string list" where
  "document_parts content = [header_title, header_generator, py_join newline content]"

datatype level = INFO | WARNING | ERROR

text \<open>
  \<open>DocumentationCrawler.save_documentation\<close>: the value returned, the lines it logs and
  the file system it leaves.
\<close>

definition save_documentation ::
  "string list \<Rightarrow> string \<Rightarrow> io_fault option \<Rightarrow> files \<Rightarrow> bool \<times> (level \<times> string) list \<times> files" where
  "save_documentation content output_file fault fs =
     (case open_and_write (document_parts content) output_file fault fs of
        (Inr u, fs') \<Rightarrow> (True, [(INFO, ''Documentation saved to '' @ output_file)], fs')
      | (Inl msg, fs') \<Rightarrow> (False, [(ERROR, ''Failed to save documentation: '' @ msg)], fs'))"

text \<open>Reading a file back: \<open>open(path).read()\<close>, when the file exists.\<close>

definition read_text :: "files \<Rightarrow> string \<Rightarrow> string option" where
  "read_text fs path = fs path"

section \<open>Batch extraction with polling\<close>

text \<open>
  The vendor and the clock are the environment of \<open>batch_extract_and_watch\<close>. One
  iteration of the \<open>while True\<close> loop asks for the status once and reads the clock at
  most once in the stall check (line 126 or line 130) and at most once in the timeout check
  (line 133); a \<open>tick\<close> holds the three answers of one iteration. Clock readings are
  real numbers. \<open>time.sleep(5)\<close> shows only in the readings that follow it.
\<close>

record tick =
  response :: "exn + pyval"
  now_progress :: real
  now_timeout :: real

record world =
  start_clock :: real
  batch_response :: "exn + pyval"
  loop_clock :: real
  polls :: "nat \<Rightarrow> tick"

definition max_wait_time :: real where
  "max_wait_time = 300"

text \<open>The value of a number in a comparison or a subtraction (\<open>True\<close> is 1, \<open>False\<close> is 0).\<close>

fun py_int :: "pyval \<Rightarrow> int option" where
  "py_int (PInt n) = Some n"
| "py_int (PBool b) = Some (if b then 1 else 0)"
| "py_int _ = None"

text \<open>
  \<open>completed > 0 and completed == total - 1\<close>: \<open>and\<close> does not evaluate its right side
  when the left one is false; comparing or subtracting with a value that is not a number
  raises \<open>TypeError\<close>.
\<close>

definition on_last_page :: "pyval \<Rightarrow> pyval \<Rightarrow> exn + bool" where
  "on_last_page completed total' =
     (case py_int completed of
        None \<Rightarrow> Inl TypeError
      | Some c \<Rightarrow>
          if \<not> c > 0 then Inr False
          else (case py_int total' of
                  None \<Rightarrow> Inl TypeError
                | Some t \<Rightarrow> Inr (c = t - 1)))"

text \<open>
  How one iteration of the loop ends: \<open>Continue t\<close> goes on to the next iteration with
  \<open>last_progress_time = t\<close>, \<open>Break status\<close> leaves the loop with the status just
  read, \<open>ReturnNone\<close> is the \<open>return None\<close> of a failed job.
\<close>

datatype ctl = Continue real | Break pyval | ReturnNone

definition poll_step :: "real \<Rightarrow> real \<Rightarrow> tick \<Rightarrow> exn + ctl" where
  "poll_step start_time last_progress_time tk =
     (case response tk of
        Inl e \<Rightarrow> Inl e
      | Inr status \<Rightarrow>
          (case py_get status ''completed'' (PInt 0) of
             Inl e \<Rightarrow> Inl e
           | Inr completed \<Rightarrow>
               (case py_get status ''total'' (PInt 0) of
                  Inl e \<Rightarrow> Inl e
                | Inr total' \<Rightarrow>
                    (case py_get status ''status'' PNone of
                       Inl e \<Rightarrow> Inl e
                     | Inr st \<Rightarrow>
                         if st = PStr ''completed'' then Inr (Break status)
                         else if st = PStr ''failed'' then Inr ReturnNone
                         else
                           (case on_last_page completed total' of
                              Inl e \<Rightarrow> Inl e
                            | Inr last_page \<Rightarrow>
                                if last_page \<and> now_progress tk - last_progress_time > 120
                                then Inr (Break status)
                                else
                                  if now_timeout tk - start_time > max_wait_time
                                  then Inr (Break status)
                                  else Inr (Continue
                                    (if last_page then last_progress_time
                                     else now_progress tk)))))))"

text \<open>
  The \<open>while True\<close> loop, from its \<open>k\<close>-th iteration on. \<open>None\<close>: the loop never
  ends. \<open>Some (Inl e)\<close>: an exception left it. \<open>Some (Inr None)\<close>: \<open>return None\<close>.
  \<open>Some (Inr (Some status))\<close>: \<open>break\<close>, with the last status read.
\<close>

partial_function (option) poll_loop ::
  "(nat \<Rightarrow> tick) \<Rightarrow> real \<Rightarrow> real \<Rightarrow> nat \<Rightarrow> (exn + pyval option) option" where
  "poll_loop ticks start_time last_progress_time k =
     (case poll_step start_time last_progress_time (ticks k) of
        Inl e \<Rightarrow> Some (Inl e)
      | Inr (Continue t) \<Rightarrow> poll_loop ticks start_time t (Suc k)
      | Inr (Break status) \<Rightarrow> Some (Inr (Some status))
      | Inr ReturnNone \<Rightarrow> Some (Inr None))"

text \<open>
  \<open>DocumentationCrawler.batch_extract_and_watch\<close>. The outer \<open>option\<close> is \<open>None\<close>
  when the call never returns; the inner one is Python's \<open>Optional\<close>: \<open>None\<close>, or the
  pair \<open>(status.get('data', []), total_credits)\<close>. \<open>except Exception\<close> turns every
  exception into \<open>None\<close>. The URLs and the options only go to the vendor, whose answers
  are the \<open>world\<close>.
\<close>

definition batch_extract_and_watch :: "world \<Rightarrow> (pyval \<times> pyval) option option" where
  "batch_extract_and_watch w =
     (case batch_response w of
        Inl e \<Rightarrow> Some None
      | Inr br \<Rightarrow>
          (case py_get br ''success'' PNone of
             Inl e \<Rightarrow> Some None
           | Inr ok \<Rightarrow>
               if \<not> py_truthy ok then Some None
               else
                 (case poll_loop (polls w) (start_clock w) (loop_clock w) 0 of
                    None \<Rightarrow> None
                  | Some (Inl e) \<Rightarrow> Some None
                  | Some (Inr None) \<Rightarrow> Some None
                  | Some (Inr (Some status)) \<Rightarrow>
                      (case py_get status ''creditsUsed'' (PInt 0) of
                         Inl e \<Rightarrow> Some None
                       | Inr total_credits \<Rightarrow>
                           (case py_get status ''data'' (PList []) of
                              Inl e \<Rightarrow> Some None
                            | Inr data \<Rightarrow> Some (Some (data, total_credits)))))))"

text \<open>
  \<open>loop_state ticks start_time t0 k = Some t\<close>: the loop that starts with
  \<open>last_progress_time = t0\<close> is still running after \<open>k\<close> iterations, and begins the
  next one with \<open>last_progress_time = t\<close>.
\<close>

fun loop_state :: "(nat \<Rightarrow> tick) \<Rightarrow> real \<Rightarrow> real \<Rightarrow> nat \<Rightarrow> real option" where
  "loop_state ticks start_time t0 0 = Some t0"
| "loop_state ticks start_time t0 (Suc k) =
     (case loop_state ticks start_time t0 k of
        None \<Rightarrow> None
      | Some t \<Rightarrow>
          (case poll_step start_time t (ticks k) of
             Inr (Continue t') \<Rightarrow> Some t'
           | _ \<Rightarrow> None))"

section \<open>The two scripts\<close>

text \<open>
  The environment of one run: what \<open>crawl_url\<close> answers, how the vendor behaves on the
  batch job started for a list of URLs, and what the operating system does with the write
  of the output file. A run ends with an exit code and leaves a file system: an uncaught
  exception and \<open>sys.exit(1)\<close> both end it with code 1, falling off the end of
  \<open>main\<close> with code 0.
\<close>

record env =
  crawl_response :: "exn + pyval"
  batch_job :: "pyval list \<Rightarrow> world"
  write_fault :: "io_fault option"

definition OUTPUT_FILE :: string where
  "OUTPUT_FILE = ''technical_documentation-extract.md''"

text \<open>\<open>[page['metadata']['sourceURL'] for page in ...]\<close> of firecrawl-test-v2.py.\<close>

fun source_urls :: "pyval list \<Rightarrow> exn + pyval list" where
  "source_urls [] = Inr []"
| "source_urls (page # pages) =
     (case py_getitem page ''metadata'' of
        Inl e \<Rightarrow> Inl e
      | Inr metadata \<Rightarrow>
          (case py_getitem metadata ''sourceURL'' of
             Inl e \<Rightarrow> Inl e
           | Inr url \<Rightarrow>
               (case source_urls pages of
                  Inl e \<Rightarrow> Inl e
                | Inr urls \<Rightarrow> Inr (url # urls))))"

text \<open>
  The loop \<open>for page in extracted_data: if content := crawler.process_page(page): ...\<close>,
  giving \<open>processed_content\<close>.
\<close>

fun process_pages :: "(pyval \<Rightarrow> string) \<Rightarrow> pyval list \<Rightarrow> string list" where
  "process_pages str_of [] = []"
| "process_pages str_of (page # pages) =
     (case process_page str_of page of
        None \<Rightarrow> process_pages str_of pages
      | Some content \<Rightarrow>
          if content \<noteq> [] then content # process_pages str_of pages
          else process_pages str_of pages)"

text \<open>\<open>main\<close> of firecrawl-test-v2.py; \<open>None\<close> when the run never ends.\<close>

definition main_v2 :: "(pyval \<Rightarrow> string) \<Rightarrow> env \<Rightarrow> files \<Rightarrow> (int \<times> files) option" where
  "main_v2 str_of ev fs =
     (case crawl_response ev of
        Inl e \<Rightarrow> Some (1, fs)
      | Inr cr \<Rightarrow>
          (case py_get cr ''success'' PNone of
             Inl e \<Rightarrow> Some (1, fs)
           | Inr ok \<Rightarrow>
               if \<not> py_truthy ok then Some (1, fs)
               else
                 (case py_get cr ''data'' (PList []) of
                    Inl e \<Rightarrow> Some (1, fs)
                  | Inr crawl_data \<Rightarrow>
                      (case py_iter crawl_data of
                         Inl e \<Rightarrow> Some (1, fs)
                       | Inr crawled \<Rightarrow>
                           (case source_urls crawled of
                              Inl e \<Rightarrow> Some (1, fs)
                            | Inr all_urls \<Rightarrow>
                                (case batch_extract_and_watch (batch_job ev all_urls) of
                                   None \<Rightarrow> None
                                 | Some None \<Rightarrow> Some (1, fs)
                                 | Some (Some (extracted_data, total_credits)) \<Rightarrow>
                                     (case py_iter extracted_data of
                                        Inl e \<Rightarrow> Some (1, fs)
                                      | Inr pages \<Rightarrow>
                                          (let processed_content = process_pages str_of pages
                                           in if processed_content = [] then Some (1, fs)
                                              else
                                                (case save_documentation processed_content
                                                        OUTPUT_FILE (write_fault ev) fs of
                                                   (saved, logged, fs') \<Rightarrow>
                                                     if \<not> saved then Some (1, fs')
                                                     else Some (0, fs'))))))))))"

text \<open>
  The loop \<open>for page in crawl_data\<close> of firecrawl-test.py, giving
  \<open>all_extracted_content\<close>, or the exception that left it.
\<close>

fun main_v1_pages :: "(pyval \<Rightarrow> string) \<Rightarrow> pyval list \<Rightarrow> exn + string list" where
  "main_v1_pages str_of [] = Inr []"
| "main_v1_pages str_of (page # pages) =
     (case main_v1_page str_of page of
        Inl e \<Rightarrow> Inl e
      | Inr r \<Rightarrow>
          (case main_v1_pages str_of pages of
             Inl e \<Rightarrow> Inl e
           | Inr rest \<Rightarrow> Inr (case r of None \<Rightarrow> rest | Some block \<Rightarrow> block # rest)))"

text \<open>
  \<open>main\<close> of firecrawl-test.py. The whole body is in a \<open>try\<close> whose
  \<open>except Exception\<close> ends the run with \<open>sys.exit(1)\<close>. \<open>len(crawl_data)\<close> in the
  progress message raises on the same values as iterating over \<open>crawl_data\<close> does.
\<close>

definition main_v1 :: "(pyval \<Rightarrow> string) \<Rightarrow> env \<Rightarrow> files \<Rightarrow> int \<times> files" where
  "main_v1 str_of ev fs =
     (case crawl_response ev of
        Inl e \<Rightarrow> (1, fs)
      | Inr cr \<Rightarrow>
          (case py_get cr ''success'' PNone of
             Inl e \<Rightarrow> (1, fs)
           | Inr ok \<Rightarrow>
               if \<not> py_truthy ok then (1, fs)
               else
                 (case py_get cr ''data'' (PList []) of
                    Inl e \<Rightarrow> (1, fs)
                  | Inr crawl_data \<Rightarrow>
                      if \<not> py_truthy crawl_data then (1, fs)
                      else
                        (case py_iter crawl_data of
                           Inl e \<Rightarrow> (1, fs)
                         | Inr pages \<Rightarrow>
                             (case main_v1_pages str_of pages of
                                Inl e \<Rightarrow> (1, fs)
                              | Inr all_extracted_content \<Rightarrow>
                                  if all_extracted_content \<noteq> [] then
                                    (case open_and_write (document_parts all_extracted_content)
                                            ''technical_documentation.md'' (write_fault ev) fs of
                                       (Inl msg, fs') \<Rightarrow> (1, fs')
                                     | (Inr u, fs') \<Rightarrow> (0, fs'))
                                  else (0, fs))))))"

section \<open>What a status reports\<close>

text \<open>
  The words of the polling properties, on the answer of one status call: the numeric
  \<open>completed\<close> and \<open>total\<close> counts of a status dict (read with the defaults of the
  code), the value of its \<open>status\<close> field, a status that is neither \<open>completed\<close> nor
  \<open>failed\<close> and has numeric counts, and a status on the last page
  (\<open>completed > 0\<close> and \<open>completed = total - 1\<close>).
\<close>

definition progress_counts :: "exn + pyval \<Rightarrow> (int \<times> int) option" where
  "progress_counts r =
     (case r of
        Inr (PDict st) \<Rightarrow>
          (case py_int (dict_get st ''completed'' (PInt 0)) of
             None \<Rightarrow> None
           | Some c \<Rightarrow>
               (case py_int (dict_get st ''total'' (PInt 0)) of
                  None \<Rightarrow> None
                | Some t \<Rightarrow> Some (c, t)))
      | _ \<Rightarrow> None)"

definition reported :: "exn + pyval \<Rightarrow> pyval" where
  "reported r = (case r of Inr (PDict st) \<Rightarrow> dict_get st ''status'' PNone | _ \<Rightarrow> PNone)"

definition in_progress :: "exn + pyval \<Rightarrow> bool" where
  "in_progress r =
     (progress_counts r \<noteq> None \<and> reported r \<noteq> PStr ''completed'' \<and> reported r \<noteq> PStr ''failed'')"

definition on_last :: "exn + pyval \<Rightarrow> bool" where
  "on_last r = (case progress_counts r of None \<Rightarrow> False | Some (c, t) \<Rightarrow> 0 < c \<and> c = t - 1)"

text \<open>\<open>str(e)\<close> of the exception of a fault.\<close>

definition fault_message :: "io_fault \<Rightarrow> string" where
  "fault_message fault = (case fault of OpenFails msg \<Rightarrow> msg | WriteFails n msg \<Rightarrow> msg)"

section \<open>Sample inputs\<close>

definition sample_metadata :: pyval where
  "sample_metadata = PDict [(''title'', PStr ''Intro''), (''sourceURL'', PStr ''http://d/'')]"

text \<open>A status dict as the vendor reports it: \<open>c\<close> of \<open>t\<close> pages done, one page record each.\<close>

definition status_report :: "string \<Rightarrow> int \<Rightarrow> int \<Rightarrow> pyval" where
  "status_report s c t =
     PDict [(''status'', PStr s), (''completed'', PInt c), (''total'', PInt t),
            (''data'', PList (replicate (nat c) (PDict [(''extract'', PStr ''text'')]))),
            (''creditsUsed'', PInt c)]"

text \<open>
  A job that starts, whose \<open>i\<close>-th status call answers \<open>statuses i\<close>, on a clock that
  reads 0 at the start and \<open>1 + 5 * i\<close> seconds in the \<open>i\<close>-th iteration.
\<close>

definition scripted_world :: "(nat \<Rightarrow> pyval) \<Rightarrow> world" where
  "scripted_world statuses =
     \<lparr>start_clock = 0,
      batch_response = Inr (PDict [(''success'', PBool True), (''id'', PStr ''job-1'')]),
      loop_clock = 0,
      polls = (\<lambda>i. \<lparr>response = Inr (statuses i),
                      now_progress = 1 + 5 * real i,
                      now_timeout = 1 + 5 * real i\<rparr>)\<rparr>"

text \<open>Three pages: 1 of 3, then 2 of 3, then completed.\<close>

definition three_pages :: "nat \<Rightarrow> pyval" where
  "three_pages i =
     (if i < 2 then status_report ''scraping'' (int i + 1) 3 else status_report ''completed'' 3 3)"

text \<open>A single page: 0 of 1 for the first 26 status calls (126 seconds), then completed.\<close>

definition single_page :: "nat \<Rightarrow> pyval" where
  "single_page i =
     (if i < 26 then status_report ''scraping'' 0 1 else status_report ''completed'' 1 1)"

text \<open>
  A crawl that succeeded and found the given pages, and a job that reports \<open>completed\<close>
  at the first status call, with the given page records as its data.
\<close>

definition crawl_found :: "pyval list \<Rightarrow> exn + pyval" where
  "crawl_found pages = Inr (PDict [(''success'', PBool True), (''data'', PList pages)])"

definition completed_with :: "pyval list \<Rightarrow> world" where
  "completed_with pages =
     scripted_world (\<lambda>i. PDict [(''status'', PStr ''completed''), (''data'', PList pages)])"

section \<open>Page formatting: the template, the content field, the defaults\<close>

lemma dict_get_Some: "map_of kvs key = Some v \<Longrightarrow> dict_get kvs key dflt = v"
  by (simp add: dict_get_def)

text \<open>\<open>process_page\<close> on a dict, with the exception handling resolved.\<close>

lemma process_page_dict:
  "process_page str_of (PDict kvs) =
     (case dict_get kvs ''metadata'' (PDict []) of
        PDict md \<Rightarrow>
          if py_truthy (dict_get kvs ''extract'' (PStr ''''))
          then Some (formatted_content
                 (py_format str_of (dict_get md ''title'' (PStr ''Untitled'')))
                 (py_format str_of (dict_get md ''sourceURL'' (PStr ''Unknown URL'')))
                 (py_format str_of (dict_get kvs ''extract'' (PStr ''''))))
          else None
      | _ \<Rightarrow> None)"
  by (simp add: process_page_def process_page_body_def split: pyval.splits)

lemma main_v1_page_dict:
  "dict_get kvs ''metadata'' (PDict []) = PDict md \<Longrightarrow>
   main_v1_page str_of (PDict kvs) =
     (if py_truthy (dict_get kvs ''markdown'' (PStr ''''))
      then Inr (Some (formatted_content
             (py_format str_of (dict_get md ''title'' (PStr ''Untitled'')))
             (py_format str_of (dict_get md ''sourceURL'' (PStr ''Unknown URL'')))
             (py_format str_of (dict_get kvs ''markdown'' (PStr '''')))))
      else Inr None)"
  by (simp add: main_v1_page_def Let_def)

text \<open>
  C4. A page record whose metadata holds a title and a source URL and whose content field
  (\<open>extract\<close> for \<open>process_page\<close> of firecrawl-test-v2.py, \<open>markdown\<close> for the page loop
  of firecrawl-test.py) is a non-empty string is formatted as exactly
  \<open>"# " + title + "\nSource: " + url + "\n\n" + content + "\n\n---\n"\<close>.
\<close>

theorem process_page_template:
  assumes "map_of kvs ''metadata'' = Some (PDict md)"
      and "map_of md ''title'' = Some (PStr title)"
      and "map_of md ''sourceURL'' = Some (PStr url)"
      and "content \<noteq> []"
  shows "(map_of kvs ''extract'' = Some (PStr content) \<longrightarrow>
            process_page str_of (PDict kvs) =
              Some (''# '' @ title @ [CHR 0x0A] @ ''Source: '' @ url @ [CHR 0x0A, CHR 0x0A]
                     @ content @ [CHR 0x0A, CHR 0x0A] @ ''---'' @ [CHR 0x0A]))
       \<and> (map_of kvs ''markdown'' = Some (PStr content) \<longrightarrow>
            main_v1_page str_of (PDict kvs) =
              Inr (Some (''# '' @ title @ [CHR 0x0A] @ ''Source: '' @ url @ [CHR 0x0A, CHR 0x0A]
                     @ content @ [CHR 0x0A, CHR 0x0A] @ ''---'' @ [CHR 0x0A])))"
proof -
  have md: "dict_get kvs ''metadata'' (PDict []) = PDict md"
    using assms(1) by (rule dict_get_Some)
  have t: "dict_get md ''title'' (PStr ''Untitled'') = PStr title"
    using assms(2) by (rule dict_get_Some)
  have u: "dict_get md ''sourceURL'' (PStr ''Unknown URL'') = PStr url"
    using assms(3) by (rule dict_get_Some)
  have "process_page str_of (PDict kvs) = Some (formatted_content title url content)"
    if "map_of kvs ''extract'' = Some (PStr content)"
    using assms(4) dict_get_Some [OF that, of "PStr ''''"]
    by (simp add: process_page_dict md t u py_format_def)
  moreover have "main_v1_page str_of (PDict kvs) = Inr (Some (formatted_content title url content))"
    if "map_of kvs ''markdown'' = Some (PStr content)"
    using assms(4) dict_get_Some [OF that, of "PStr ''''"]
    by (simp add: main_v1_page_dict [OF md] t u py_format_def)
  ultimately show ?thesis
    by (simp add: formatted_content_def newline_def)
qed

text \<open>The template on a page that carries both content fields.\<close>

theorem process_page_template_witness:
  "process_page (\<lambda>v. [])
     (PDict [(''extract'', PStr ''Body''), (''markdown'', PStr ''Body''),
             (''metadata'', PDict [(''title'', PStr ''Intro''), (''sourceURL'', PStr ''http://d/'')])])
     = Some (''# Intro'' @ [CHR 0x0A] @ ''Source: http://d/'' @ [CHR 0x0A, CHR 0x0A] @ ''Body''
              @ [CHR 0x0A, CHR 0x0A] @ ''---'' @ [CHR 0x0A])
   \<and> main_v1_page (\<lambda>v. [])
     (PDict [(''extract'', PStr ''Body''), (''markdown'', PStr ''Body''),
             (''metadata'', PDict [(''title'', PStr ''Intro''), (''sourceURL'', PStr ''http://d/'')])])
     = Inr (Some (''# Intro'' @ [CHR 0x0A] @ ''Source: http://d/'' @ [CHR 0x0A, CHR 0x0A] @ ''Body''
              @ [CHR 0x0A, CHR 0x0A] @ ''---'' @ [CHR 0x0A]))"
  using process_page_template [of
     "[(''extract'', PStr ''Body''), (''markdown'', PStr ''Body''),
       (''metadata'', PDict [(''title'', PStr ''Intro''), (''sourceURL'', PStr ''http://d/'')])]"
     "[(''title'', PStr ''Intro''), (''sourceURL'', PStr ''http://d/'')]"
     "''Intro''" "''http://d/''" "''Body''" "\<lambda>v. []"]
  by simp

text \<open>
  C5, as stated, fails: \<open>process_page\<close> reads only \<open>extract\<close> and skips a page that has
  only a non-empty \<open>markdown\<close> field; the page loop of firecrawl-test.py reads only
  \<open>markdown\<close> and skips a page that has only a non-empty \<open>extract\<close> field.
\<close>

theorem either_field_counterexample:
  "process_page (\<lambda>v. []) (PDict [(''markdown'', PStr ''Body''), (''metadata'', sample_metadata)]) = None
   \<and> main_v1_page (\<lambda>v. []) (PDict [(''extract'', PStr ''Body''), (''metadata'', sample_metadata)])
       = Inr None"
  by (simp add: process_page_dict main_v1_page_def dict_get_def sample_metadata_def)

text \<open>
  C5, amended. For a page record whose metadata is a dict (or absent), a non-empty
  \<open>extract\<close> field is sufficient for \<open>process_page\<close> of firecrawl-test-v2.py to produce a
  block, and a non-empty \<open>markdown\<close> field is sufficient for the page loop of
  firecrawl-test.py to produce one: each script accepts its own content field.
\<close>

theorem own_field_accepted:
  assumes "dict_get kvs ''metadata'' (PDict []) = PDict md"
  shows "(py_truthy (dict_get kvs ''extract'' (PStr '''')) \<longrightarrow>
            (\<exists>block. process_page str_of (PDict kvs) = Some block \<and> block \<noteq> []))
       \<and> (py_truthy (dict_get kvs ''markdown'' (PStr '''')) \<longrightarrow>
            (\<exists>block. main_v1_page str_of (PDict kvs) = Inr (Some block) \<and> block \<noteq> []))"
  by (simp add: process_page_dict main_v1_page_dict [OF assms] assms formatted_content_def)

theorem own_field_accepted_witness:
  "(\<exists>block. process_page (\<lambda>v. [])
        (PDict [(''extract'', PStr ''Body''), (''metadata'', sample_metadata)]) = Some block
      \<and> block \<noteq> [])
   \<and> (\<exists>block. main_v1_page (\<lambda>v. [])
        (PDict [(''markdown'', PStr ''Body''), (''metadata'', sample_metadata)]) = Inr (Some block)
      \<and> block \<noteq> [])"
  using own_field_accepted [of "[(''extract'', PStr ''Body''), (''metadata'', sample_metadata)]"
      "[(''title'', PStr ''Intro''), (''sourceURL'', PStr ''http://d/'')]" "\<lambda>v. []"]
    own_field_accepted [of "[(''markdown'', PStr ''Body''), (''metadata'', sample_metadata)]"
      "[(''title'', PStr ''Intro''), (''sourceURL'', PStr ''http://d/'')]" "\<lambda>v. []"]
  by (simp add: dict_get_def sample_metadata_def)

lemma formatted_content_nonempty: "formatted_content title url content \<noteq> []"
  by (simp add: formatted_content_def)

lemma process_pages_append:
  "process_pages str_of (xs @ ys) = process_pages str_of xs @ process_pages str_of ys"
  by (induction xs) (auto split: option.splits)

lemma main_v1_pages_skip:
  "main_v1_page str_of page = Inr None \<Longrightarrow>
   main_v1_pages str_of (xs @ page # ys) = main_v1_pages str_of (xs @ ys)"
  by (induction xs) (auto split: sum.splits option.splits)

text \<open>
  Where a page record without content is skipped. Its content field is missing or empty, it
  gives no block, and the pages before and after it are processed as if it were not in the
  batch: the list of blocks is the one of the batch without that page. For
  firecrawl-test-v2.py this holds for every page dict; for firecrawl-test.py for every page
  dict whose metadata is a dict or absent.
\<close>

lemma missing_content_skipped:
  "(\<not> py_truthy (dict_get kvs ''extract'' (PStr '''')) \<longrightarrow>
      process_page str_of (PDict kvs) = None \<and>
      process_pages str_of (before @ PDict kvs # after) = process_pages str_of (before @ after))
   \<and> (\<not> py_truthy (dict_get kvs ''markdown'' (PStr '''')) \<and>
        dict_get kvs ''metadata'' (PDict []) = PDict md \<longrightarrow>
      main_v1_page str_of (PDict kvs) = Inr None \<and>
      main_v1_pages str_of (before @ PDict kvs # after) = main_v1_pages str_of (before @ after))"
proof -
  have "process_page str_of (PDict kvs) = None"
    if "\<not> py_truthy (dict_get kvs ''extract'' (PStr ''''))"
    using that by (simp add: process_page_dict split: pyval.splits)
  moreover have "main_v1_page str_of (PDict kvs) = Inr None"
    if "\<not> py_truthy (dict_get kvs ''markdown'' (PStr ''''))"
      and "dict_get kvs ''metadata'' (PDict []) = PDict md"
    using that by (simp add: main_v1_page_dict)
  ultimately show ?thesis
    by (simp add: process_pages_append main_v1_pages_skip)
qed

text \<open>A page without content between two pages with content: two blocks, in both scripts.\<close>

lemma missing_content_skipped_example:
  "process_page (\<lambda>v. []) (PDict [(''metadata'', sample_metadata)]) = None
   \<and> process_pages (\<lambda>v. [])
        ([PDict [(''extract'', PStr ''A'')]] @ PDict [(''metadata'', sample_metadata)]
           # [PDict [(''extract'', PStr ''B'')]])
      = [formatted_content ''Untitled'' ''Unknown URL'' ''A'',
         formatted_content ''Untitled'' ''Unknown URL'' ''B'']
   \<and> main_v1_page (\<lambda>v. []) (PDict [(''markdown'', PStr ''''), (''metadata'', sample_metadata)])
      = Inr None
   \<and> main_v1_pages (\<lambda>v. [])
        ([PDict [(''markdown'', PStr ''A'')]]
           @ PDict [(''markdown'', PStr ''''), (''metadata'', sample_metadata)]
           # [PDict [(''markdown'', PStr ''B'')]])
      = Inr [formatted_content ''Untitled'' ''Unknown URL'' ''A'',
             formatted_content ''Untitled'' ''Unknown URL'' ''B'']"
  using missing_content_skipped [of "[(''metadata'', sample_metadata)]" "\<lambda>v. []"
      "[PDict [(''extract'', PStr ''A'')]]" "[PDict [(''extract'', PStr ''B'')]]" "[]"]
    missing_content_skipped [of "[(''markdown'', PStr ''''), (''metadata'', sample_metadata)]"
      "\<lambda>v. []" "[PDict [(''markdown'', PStr ''A'')]]" "[PDict [(''markdown'', PStr ''B'')]]"
      "[(''title'', PStr ''Intro''), (''sourceURL'', PStr ''http://d/'')]"]
  by (simp add: dict_get_def sample_metadata_def process_page_dict main_v1_page_def py_format_def
      formatted_content_nonempty)

text \<open>
  C10. A page record with non-empty content whose \<open>metadata\<close> is missing, or whose
  metadata lacks \<open>title\<close> or \<open>sourceURL\<close>, is neither rejected nor skipped: the block is
  the fixed template with \<open>Untitled\<close> for a missing title and \<open>Unknown URL\<close> for a
  missing source URL.
\<close>

theorem metadata_defaults:
  assumes "map_of kvs ''metadata'' = None \<and> md = [] \<or> map_of kvs ''metadata'' = Some (PDict md)"
      and "content \<noteq> []"
  shows "(map_of kvs ''extract'' = Some (PStr content) \<longrightarrow>
            process_page str_of (PDict kvs) =
              Some (formatted_content
                (case map_of md ''title'' of None \<Rightarrow> ''Untitled'' | Some v \<Rightarrow> py_format str_of v)
                (case map_of md ''sourceURL'' of None \<Rightarrow> ''Unknown URL''
                 | Some v \<Rightarrow> py_format str_of v)
                content))
       \<and> (map_of kvs ''markdown'' = Some (PStr content) \<longrightarrow>
            main_v1_page str_of (PDict kvs) =
              Inr (Some (formatted_content
                (case map_of md ''title'' of None \<Rightarrow> ''Untitled'' | Some v \<Rightarrow> py_format str_of v)
                (case map_of md ''sourceURL'' of None \<Rightarrow> ''Unknown URL''
                 | Some v \<Rightarrow> py_format str_of v)
                content)))"
proof -
  have md: "dict_get kvs ''metadata'' (PDict []) = PDict md"
    using assms(1) by (auto simp: dict_get_def)
  have t: "py_format str_of (dict_get md ''title'' (PStr ''Untitled'')) =
      (case map_of md ''title'' of None \<Rightarrow> ''Untitled'' | Some v \<Rightarrow> py_format str_of v)"
    by (simp add: dict_get_def py_format_def split: option.splits)
  have u: "py_format str_of (dict_get md ''sourceURL'' (PStr ''Unknown URL'')) =
      (case map_of md ''sourceURL'' of None \<Rightarrow> ''Unknown URL'' | Some v \<Rightarrow> py_format str_of v)"
    by (simp add: dict_get_def py_format_def split: option.splits)
  have "process_page str_of (PDict kvs) = Some (formatted_content
          (py_format str_of (dict_get md ''title'' (PStr ''Untitled'')))
          (py_format str_of (dict_get md ''sourceURL'' (PStr ''Unknown URL''))) content)"
    if "map_of kvs ''extract'' = Some (PStr content)"
    using assms(2) dict_get_Some [OF that, of "PStr ''''"]
    by (simp add: process_page_dict md py_format_def)
  moreover have "main_v1_page str_of (PDict kvs) = Inr (Some (formatted_content
          (py_format str_of (dict_get md ''title'' (PStr ''Untitled'')))
          (py_format str_of (dict_get md ''sourceURL'' (PStr ''Unknown URL''))) content))"
    if "map_of kvs ''markdown'' = Some (PStr content)"
    using assms(2) dict_get_Some [OF that, of "PStr ''''"]
    by (simp add: main_v1_page_dict [OF md] py_format_def)
  ultimately show ?thesis
    unfolding t u by simp
qed

text \<open>No metadata at all in the first page, a metadata without source URL in the second.\<close>

theorem metadata_defaults_witness:
  "process_page (\<lambda>v. []) (PDict [(''extract'', PStr ''Body'')]) =
     Some (''# Untitled'' @ [CHR 0x0A] @ ''Source: Unknown URL'' @ [CHR 0x0A, CHR 0x0A] @ ''Body''
              @ [CHR 0x0A, CHR 0x0A] @ ''---'' @ [CHR 0x0A])
   \<and> main_v1_page (\<lambda>v. [])
       (PDict [(''markdown'', PStr ''Body''), (''metadata'', PDict [(''title'', PStr ''Intro'')])]) =
     Inr (Some (''# Intro'' @ [CHR 0x0A] @ ''Source: Unknown URL'' @ [CHR 0x0A, CHR 0x0A] @ ''Body''
              @ [CHR 0x0A, CHR 0x0A] @ ''---'' @ [CHR 0x0A]))"
  using metadata_defaults [of "[(''extract'', PStr ''Body'')]" "[]" "''Body''" "\<lambda>v. []"]
    metadata_defaults [of
      "[(''markdown'', PStr ''Body''), (''metadata'', PDict [(''title'', PStr ''Intro'')])]"
      "[(''title'', PStr ''Intro'')]" "''Body''" "\<lambda>v. []"]
  by (simp add: formatted_content_def newline_def py_format_def)

section \<open>Output writer: round trip and failures\<close>

lemma py_join_newline:
  "py_join [CHR 0x0A] (x # xs) = x @ concat (map (\<lambda>y. CHR 0x0A # y) xs)"
  by (induction xs arbitrary: x) simp_all

text \<open>
  C8. When the write succeeds, \<open>save_documentation\<close> returns \<open>True\<close> and the file read
  back is exactly the two-line header followed by the blocks in their order, each block
  after the first preceded by one newline, whatever the file held before. The inline write
  of firecrawl-test.py (the same three writes) leaves the same text.
\<close>

theorem save_documentation_roundtrip:
  "fst (save_documentation blocks output_file None fs) = True
   \<and> read_text (snd (snd (save_documentation blocks output_file None fs))) output_file =
       Some (''# Technical Documentation Overview'' @ [CHR 0x0A, CHR 0x0A]
             @ ''Generated with Firecrawl'' @ [CHR 0x0A, CHR 0x0A]
             @ (case blocks of [] \<Rightarrow> [] | b # bs \<Rightarrow> b @ concat (map (\<lambda>y. CHR 0x0A # y) bs)))
   \<and> read_text (snd (open_and_write (document_parts blocks) output_file None fs)) output_file =
       read_text (snd (snd (save_documentation blocks output_file None fs))) output_file"
  by (cases blocks)
    (simp_all add: save_documentation_def open_and_write_def document_parts_def read_text_def
      header_title_def header_generator_def py_join_newline newline_def)

text \<open>
  C9. Whatever operation of the write raises (opening, a write, closing),
  \<open>save_documentation\<close> returns \<open>False\<close> and logs one error line with the message of
  the exception; no exception leaves it (its result is always a returned value). When
  nothing raises it returns \<open>True\<close> and logs where the documentation was saved.
\<close>

theorem save_documentation_catches:
  "fst (save_documentation content output_file (Some fault) fs) = False
   \<and> fst (snd (save_documentation content output_file (Some fault) fs)) =
       [(ERROR, ''Failed to save documentation: '' @ fault_message fault)]
   \<and> save_documentation content output_file None fs =
       (True, [(INFO, ''Documentation saved to '' @ output_file)],
        fs(output_file \<mapsto> concat (document_parts content)))"
  by (simp add: save_documentation_def open_and_write_def fault_message_def split: io_fault.splits)

section \<open>Polling: completion, stall, timeout\<close>

lemma poll_step_completed:
  "response tk = Inr (PDict st) \<Longrightarrow> map_of st ''status'' = Some (PStr ''completed'') \<Longrightarrow>
   poll_step s t tk = Inr (Break (PDict st))"
  by (simp add: poll_step_def dict_get_def)

text \<open>One iteration on a status that is in progress: the two early exits, or the next iteration.\<close>

lemma poll_step_in_progress:
  assumes "in_progress (response tk)"
  shows "\<exists>st. response tk = Inr (PDict st) \<and>
     poll_step s t tk =
       (if on_last (response tk) \<and> now_progress tk - t > 120 then Inr (Break (PDict st))
        else if now_timeout tk - s > 300 then Inr (Break (PDict st))
        else Inr (Continue (if on_last (response tk) then t else now_progress tk)))"
  using assms
  by (auto simp: in_progress_def progress_counts_def reported_def on_last_def poll_step_def
      on_last_page_def max_wait_time_def split: sum.splits pyval.splits option.splits)

text \<open>A loop that is still running after \<open>k\<close> iterations goes on from there.\<close>

lemma poll_loop_loop_state:
  "loop_state ticks s t0 k = Some t \<Longrightarrow> poll_loop ticks s t0 0 = poll_loop ticks s t k"
proof (induction k arbitrary: t)
  case 0
  then show ?case by simp
next
  case (Suc k)
  from Suc.prems obtain t1 where t1: "loop_state ticks s t0 k = Some t1"
    and st: "poll_step s t1 (ticks k) = Inr (Continue t)"
    by (auto split: option.splits sum.splits ctl.splits)
  have "poll_loop ticks s t0 0 = poll_loop ticks s t1 k"
    by (rule Suc.IH [OF t1])
  also have "\<dots> = poll_loop ticks s t (Suc k)"
    by (subst poll_loop.simps) (simp add: st)
  finally show ?case .
qed

text \<open>What the call returns once the loop is left by \<open>break\<close>.\<close>

lemma batch_break:
  assumes "batch_response w = Inr (PDict br)" and "py_truthy (dict_get br ''success'' PNone)"
      and "poll_loop (polls w) (start_clock w) (loop_clock w) 0 = Some (Inr (Some (PDict st)))"
  shows "batch_extract_and_watch w =
           Some (Some (dict_get st ''data'' (PList []), dict_get st ''creditsUsed'' (PInt 0)))"
  using assms by (simp add: batch_extract_and_watch_def)

lemma batch_completed_at:
  assumes "batch_response w = Inr (PDict br)" and "py_truthy (dict_get br ''success'' PNone)"
      and "loop_state (polls w) (start_clock w) (loop_clock w) k = Some t"
      and "response (polls w k) = Inr (PDict st)"
      and "map_of st ''status'' = Some (PStr ''completed'')"
  shows "batch_extract_and_watch w =
           Some (Some (dict_get st ''data'' (PList []), dict_get st ''creditsUsed'' (PInt 0)))"
proof -
  have "poll_loop (polls w) (start_clock w) (loop_clock w) 0
          = poll_loop (polls w) (start_clock w) t k"
    by (rule poll_loop_loop_state [OF assms(3)])
  also have "\<dots> = Some (Inr (Some (PDict st)))"
    by (subst poll_loop.simps) (simp add: poll_step_completed [OF assms(4,5)])
  finally show ?thesis
    by (rule batch_break [OF assms(1,2)])
qed

text \<open>
  C1. When the job has started and the loop, still running, reads a status whose
  \<open>status\<close> field is \<open>completed\<close>, the call returns at that point: the pair of that
  status's \<open>data\<close> (default \<open>[]\<close>) and its \<open>creditsUsed\<close> (default 0).
\<close>

theorem completed_returns:
  assumes "batch_response w = Inr (PDict br)" and "py_truthy (dict_get br ''success'' PNone)"
      and "loop_state (polls w) (start_clock w) (loop_clock w) k = Some t"
      and "response (polls w k) = Inr (PDict st)"
      and "map_of st ''status'' = Some (PStr ''completed'')"
  shows "batch_extract_and_watch w =
           Some (Some (dict_get st ''data'' (PList []), dict_get st ''creditsUsed'' (PInt 0)))"
  using assms by (rule batch_completed_at)

lemma scripted_simps:
  "start_clock (scripted_world f) = 0"
  "loop_clock (scripted_world f) = 0"
  "batch_response (scripted_world f) = Inr (PDict [(''success'', PBool True), (''id'', PStr ''job-1'')])"
  "response (polls (scripted_world f) i) = Inr (f i)"
  "now_progress (polls (scripted_world f) i) = 1 + 5 * real i"
  "now_timeout (polls (scripted_world f) i) = 1 + 5 * real i"
  by (simp_all add: scripted_world_def)

lemma in_progress_report:
  "s \<noteq> ''completed'' \<Longrightarrow> s \<noteq> ''failed'' \<Longrightarrow> in_progress (Inr (status_report s c t))"
  by (simp add: in_progress_def progress_counts_def reported_def status_report_def dict_get_def)

lemma on_last_report:
  "on_last (Inr (status_report s c t)) = (0 < c \<and> c = t - 1)"
  by (simp add: on_last_def progress_counts_def status_report_def dict_get_def)

lemma poll_step_scripted:
  assumes "in_progress (Inr (f i))"
  shows "poll_step 0 t (polls (scripted_world f) i) =
       (if on_last (Inr (f i)) \<and> 1 + 5 * real i - t > 120 then Inr (Break (f i))
        else if 5 * real i > 299 then Inr (Break (f i))
        else Inr (Continue (if on_last (Inr (f i)) then t else 1 + 5 * real i)))"
proof -
  have "in_progress (response (polls (scripted_world f) i))"
    using assms by (simp add: scripted_simps)
  from poll_step_in_progress [OF this, of 0 t] show ?thesis
    by (auto simp: scripted_simps)
qed

text \<open>Three pages, completed at the third status call: all three pages and 3 credits.\<close>

theorem completed_returns_witness:
  "batch_extract_and_watch (scripted_world three_pages) =
     Some (Some (PList (replicate 3 (PDict [(''extract'', PStr ''text'')])), PInt 3))"
proof -
  have s0: "poll_step 0 0 (polls (scripted_world three_pages) 0) = Inr (Continue 1)"
    by (subst poll_step_scripted)
      (simp_all add: three_pages_def in_progress_report on_last_report)
  have s1: "poll_step 0 1 (polls (scripted_world three_pages) (Suc 0)) = Inr (Continue 1)"
    by (subst poll_step_scripted)
      (simp_all add: three_pages_def in_progress_report on_last_report)
  have ls: "loop_state (polls (scripted_world three_pages)) (start_clock (scripted_world three_pages))
      (loop_clock (scripted_world three_pages)) 2 = Some 1"
    by (simp add: numeral_2_eq_2 scripted_simps s0 s1)
  have r: "response (polls (scripted_world three_pages) 2) =
      Inr (PDict [(''status'', PStr ''completed''), (''completed'', PInt 3), (''total'', PInt 3),
            (''data'', PList (replicate (nat 3) (PDict [(''extract'', PStr ''text'')]))),
            (''creditsUsed'', PInt 3)])"
    by (simp add: scripted_simps three_pages_def status_report_def)
  show ?thesis
    using completed_returns [OF _ _ ls r, of "[(''success'', PBool True), (''id'', PStr ''job-1'')]"]
    by (simp add: scripted_simps dict_get_def)
qed

text \<open>
  The loop from its \<open>i\<close>-th iteration, when every status up to the \<open>k\<close>-th is in
  progress and the timeout check of the \<open>k\<close>-th iteration reads more than 300 seconds:
  it is left by \<open>break\<close> in some iteration from \<open>i\<close> to \<open>k\<close>.
\<close>

lemma timeout_loop:
  assumes "\<forall>i\<le>k. in_progress (response (ticks i))"
      and "now_timeout (ticks k) - s > 300"
  shows "i \<le> k \<Longrightarrow> \<exists>m st. i \<le> m \<and> m \<le> k \<and> response (ticks m) = Inr (PDict st) \<and>
           poll_loop ticks s t i = Some (Inr (Some (PDict st)))"
proof (induction "k - i" arbitrary: i t)
  case 0
  then have ik: "i = k" by simp
  from assms(1) have "in_progress (response (ticks k))" by simp
  from poll_step_in_progress [OF this, of s t] assms(2)
  obtain st where r: "response (ticks k) = Inr (PDict st)"
    and "poll_step s t (ticks k) = Inr (Break (PDict st))"
    by (auto split: if_splits)
  then have "poll_loop ticks s t k = Some (Inr (Some (PDict st)))"
    by (subst poll_loop.simps) simp
  with r ik show ?case by blast
next
  case (Suc n)
  then have lt: "i < k" and n: "n = k - Suc i" by simp_all
  from assms(1) lt have "in_progress (response (ticks i))" by simp
  from poll_step_in_progress [OF this, of s t]
  obtain st where r: "response (ticks i) = Inr (PDict st)"
    and ps: "poll_step s t (ticks i) = Inr (Break (PDict st)) \<or>
             (\<exists>t'. poll_step s t (ticks i) = Inr (Continue t'))"
    by (auto split: if_splits)
  from ps show ?case
  proof
    assume "poll_step s t (ticks i) = Inr (Break (PDict st))"
    then have "poll_loop ticks s t i = Some (Inr (Some (PDict st)))"
      by (subst poll_loop.simps) simp
    with r Suc.prems show ?thesis by blast
  next
    assume "\<exists>t'. poll_step s t (ticks i) = Inr (Continue t')"
    then obtain t' where c: "poll_step s t (ticks i) = Inr (Continue t')" ..
    have eq: "poll_loop ticks s t i = poll_loop ticks s t' (Suc i)"
      by (subst poll_loop.simps) (simp add: c)
    from Suc.hyps(1) [OF n, of t'] lt
    obtain m st' where "Suc i \<le> m" "m \<le> k" "response (ticks m) = Inr (PDict st')"
      "poll_loop ticks s t' (Suc i) = Some (Inr (Some (PDict st')))"
      by auto
    with eq show ?thesis
      by (metis Suc_leD)
  qed
qed

text \<open>
  The same when the statuses from the \<open>j\<close>-th to the \<open>k\<close>-th are on the last page, the
  clock does not run backwards and more than 120 seconds lie between the stall checks of
  the \<open>j\<close>-th and the \<open>k\<close>-th iteration. The invariant: \<open>last_progress_time\<close> is not
  later than the stall check of iteration \<open>min i j\<close>.
\<close>

lemma stall_loop:
  assumes inprog: "\<forall>i\<le>k. in_progress (response (ticks i))"
      and mono: "\<forall>i<k. now_progress (ticks i) \<le> now_progress (ticks (Suc i))"
      and jk: "j \<le> k"
      and last: "\<forall>i. j \<le> i \<and> i \<le> k \<longrightarrow> on_last (response (ticks i))"
      and gap: "now_progress (ticks k) - now_progress (ticks j) > 120"
  shows "i \<le> k \<Longrightarrow> t \<le> now_progress (ticks (min i j)) \<Longrightarrow>
         \<exists>m st. i \<le> m \<and> m \<le> k \<and> response (ticks m) = Inr (PDict st) \<and>
           poll_loop ticks s t i = Some (Inr (Some (PDict st)))"
proof (induction "k - i" arbitrary: i t)
  case 0
  then have ik: "i = k" by simp
  with jk have "min i j = j" by simp
  with 0 have tj: "t \<le> now_progress (ticks j)" by simp
  from inprog have ip: "in_progress (response (ticks k))" by simp
  from last jk have ol: "on_last (response (ticks k))" by simp
  from poll_step_in_progress [OF ip, of s t] ol gap tj
  obtain st where r: "response (ticks k) = Inr (PDict st)"
    and "poll_step s t (ticks k) = Inr (Break (PDict st))"
    by (auto split: if_splits)
  then have "poll_loop ticks s t k = Some (Inr (Some (PDict st)))"
    by (subst poll_loop.simps) simp
  with r ik show ?case by blast
next
  case (Suc n)
  then have lt: "i < k" and n: "n = k - Suc i" by simp_all
  from inprog lt have ip: "in_progress (response (ticks i))" by simp
  from poll_step_in_progress [OF ip, of s t]
  obtain st where r: "response (ticks i) = Inr (PDict st)"
    and ps: "poll_step s t (ticks i) = Inr (Break (PDict st)) \<or>
             poll_step s t (ticks i) =
               Inr (Continue (if on_last (response (ticks i)) then t else now_progress (ticks i)))"
    by (auto split: if_splits)
  from ps show ?case
  proof
    assume "poll_step s t (ticks i) = Inr (Break (PDict st))"
    then have "poll_loop ticks s t i = Some (Inr (Some (PDict st)))"
      by (subst poll_loop.simps) simp
    with r Suc.prems show ?thesis by blast
  next
    let ?t' = "if on_last (response (ticks i)) then t else now_progress (ticks i)"
    assume c: "poll_step s t (ticks i) = Inr (Continue ?t')"
    have eq: "poll_loop ticks s t i = poll_loop ticks s ?t' (Suc i)"
      by (subst poll_loop.simps) (simp add: c)
    have inv: "?t' \<le> now_progress (ticks (min (Suc i) j))"
    proof (cases "j \<le> i")
      case True
      with lt last have "on_last (response (ticks i))" by simp
      moreover from True have "min (Suc i) j = j" "min i j = j" by simp_all
      ultimately show ?thesis using Suc.prems(2) by simp
    next
      case False
      then have m: "min (Suc i) j = Suc i" "min i j = i" by simp_all
      from mono lt have "now_progress (ticks i) \<le> now_progress (ticks (Suc i))" by simp
      with Suc.prems(2) m show ?thesis by simp
    qed
    from Suc.hyps(1) [OF n _ inv] lt
    obtain m st' where "Suc i \<le> m" "m \<le> k" "response (ticks m) = Inr (PDict st')"
      "poll_loop ticks s ?t' (Suc i) = Some (Inr (Some (PDict st')))"
      by auto
    with eq show ?thesis
      by (metis Suc_leD)
  qed
qed

text \<open>The single page stays at 0 of 1 and the loop keeps running through 26 iterations.\<close>

lemma single_page_running:
  "i \<le> 26 \<Longrightarrow> loop_state (polls (scripted_world single_page)) 0 0 i =
     Some (if i = 0 then 0 else 1 + 5 * real (i - 1))"
proof (induction i)
  case 0
  then show ?case by simp
next
  case (Suc i)
  then have i: "i < 26" by simp
  then have ip: "in_progress (Inr (single_page i))"
    and ol: "\<not> on_last (Inr (single_page i))"
    by (simp_all add: single_page_def in_progress_report on_last_report)
  have "real i < 26" using i by simp
  then have "\<not> 5 * real i > 299" by simp
  with Suc i ip ol show ?case
    by (simp add: poll_step_scripted)
qed

text \<open>
  C2, as stated, fails. A job of one page reports 0 of 1 (\<open>completed = total - 1\<close>) at every
  status call from the first to the 26th, 125 seconds apart, with no change of the counts;
  the loop does not stop at any of them, reads \<open>completed\<close> at the 27th call and returns
  the data of the completed status.
\<close>

theorem stall_claim_counterexample:
  "list_all (\<lambda>i. progress_counts (response (polls (scripted_world single_page) i)) = Some (0, 1)
       \<and> in_progress (response (polls (scripted_world single_page) i))) [0..<26]
   \<and> now_progress (polls (scripted_world single_page) 25)
       - now_progress (polls (scripted_world single_page) 0) > 120
   \<and> batch_extract_and_watch (scripted_world single_page) =
       Some (Some (PList [PDict [(''extract'', PStr ''text'')]], PInt 1))
   \<and> \<not> (\<exists>m\<le>25. \<exists>st. response (polls (scripted_world single_page) m) = Inr (PDict st) \<and>
           batch_extract_and_watch (scripted_world single_page) =
             Some (Some (dict_get st ''data'' (PList []), dict_get st ''creditsUsed'' (PInt 0))))"
proof -
  let ?w = "scripted_world single_page"
  have "progress_counts (response (polls ?w i)) = Some (0, 1)
       \<and> in_progress (response (polls ?w i))" if "i < 26" for i
    using that
    by (simp add: scripted_simps single_page_def in_progress_report)
      (simp add: progress_counts_def status_report_def dict_get_def)
  then have a: "list_all (\<lambda>i. progress_counts (response (polls ?w i)) = Some (0, 1)
       \<and> in_progress (response (polls ?w i))) [0..<26]"
    by (simp add: list_all_iff)
  have b: "now_progress (polls ?w 25) - now_progress (polls ?w 0) > 120"
    by (simp add: scripted_simps)
  have ls: "loop_state (polls ?w) (start_clock ?w) (loop_clock ?w) 26 = Some 126"
    using single_page_running [of 26] by (simp add: scripted_simps)
  have r: "response (polls ?w 26) =
      Inr (PDict [(''status'', PStr ''completed''), (''completed'', PInt 1), (''total'', PInt 1),
            (''data'', PList (replicate (nat 1) (PDict [(''extract'', PStr ''text'')]))),
            (''creditsUsed'', PInt 1)])"
    by (simp add: scripted_simps single_page_def status_report_def)
  have c: "batch_extract_and_watch ?w =
       Some (Some (PList [PDict [(''extract'', PStr ''text'')]], PInt 1))"
    using batch_completed_at [OF _ _ ls r, of "[(''success'', PBool True), (''id'', PStr ''job-1'')]"]
    by (simp add: scripted_simps dict_get_def)
  have d: "\<not> (\<exists>m\<le>25. \<exists>st. response (polls ?w m) = Inr (PDict st) \<and>
           batch_extract_and_watch ?w =
             Some (Some (dict_get st ''data'' (PList []), dict_get st ''creditsUsed'' (PInt 0))))"
    unfolding c
    by (auto simp: scripted_simps single_page_def status_report_def dict_get_def)
  from a b c d show ?thesis by blast
qed

text \<open>
  C2, amended. When the job has started, every status up to the \<open>k\<close>-th call is in
  progress (neither \<open>completed\<close> nor \<open>failed\<close>), the clock does not run backwards, and from
  the \<open>j\<close>-th to the \<open>k\<close>-th call the status sits on the last page, that is
  \<open>completed > 0\<close> and \<open>completed = total - 1\<close>, for more than 120 seconds, then the loop
  stops early at some call \<open>m \<le> k\<close> and the call returns the \<open>data\<close> and \<open>creditsUsed\<close>
  of the status read there, which is neither \<open>completed\<close> nor \<open>failed\<close>.
\<close>

theorem stall_stops_early:
  assumes "batch_response w = Inr (PDict br)" and "py_truthy (dict_get br ''success'' PNone)"
      and "\<forall>i\<le>k. in_progress (response (polls w i))"
      and "loop_clock w \<le> now_progress (polls w 0)"
      and "\<forall>i<k. now_progress (polls w i) \<le> now_progress (polls w (Suc i))"
      and "j \<le> k"
      and "\<forall>i. j \<le> i \<and> i \<le> k \<longrightarrow> on_last (response (polls w i))"
      and "now_progress (polls w k) - now_progress (polls w j) > 120"
  shows "\<exists>m\<le>k. \<exists>st. response (polls w m) = Inr (PDict st) \<and>
           in_progress (response (polls w m)) \<and>
           batch_extract_and_watch w =
             Some (Some (dict_get st ''data'' (PList []), dict_get st ''creditsUsed'' (PInt 0)))"
proof -
  have "loop_clock w \<le> now_progress (polls w (min 0 j))"
    using assms(4) by simp
  from stall_loop [OF assms(3) assms(5) assms(6) assms(7) assms(8) _ this, of "start_clock w"]
  obtain m st where m: "m \<le> k" "response (polls w m) = Inr (PDict st)"
    "poll_loop (polls w) (start_clock w) (loop_clock w) 0 = Some (Inr (Some (PDict st)))"
    by auto
  from m(1) assms(3) have "in_progress (response (polls w m))" by simp
  with m(1,2) batch_break [OF assms(1,2) m(3)] show ?thesis by blast
qed

text \<open>Stuck at 2 of 3 from the first status call on: the two pages and 2 credits.\<close>

theorem stall_stops_early_witness:
  "batch_extract_and_watch (scripted_world (\<lambda>i. status_report ''scraping'' 2 3)) =
     Some (Some (PList [PDict [(''extract'', PStr ''text'')], PDict [(''extract'', PStr ''text'')]],
                 PInt 2))"
  using stall_stops_early [of "scripted_world (\<lambda>i. status_report ''scraping'' 2 3)"
      "[(''success'', PBool True), (''id'', PStr ''job-1'')]" 25 0]
  by (simp add: scripted_simps in_progress_report on_last_report dict_get_def)
     (auto simp: status_report_def dict_get_def numeral_2_eq_2)

text \<open>
  C3. When the job has started, every status up to the \<open>k\<close>-th call is in progress
  (neither \<open>completed\<close> nor \<open>failed\<close>) and the timeout check of the \<open>k\<close>-th iteration
  reads an elapsed time of more than 300 seconds, the call returns: the loop stops at some
  call \<open>m \<le> k\<close>, so it never runs past the iteration that sees the bound exceeded, and the
  result is the \<open>data\<close> and \<open>creditsUsed\<close> of the status read there.
\<close>

theorem timeout_stops:
  assumes "batch_response w = Inr (PDict br)" and "py_truthy (dict_get br ''success'' PNone)"
      and "\<forall>i\<le>k. in_progress (response (polls w i))"
      and "now_timeout (polls w k) - start_clock w > 300"
  shows "\<exists>m\<le>k. \<exists>st. response (polls w m) = Inr (PDict st) \<and>
           batch_extract_and_watch w =
             Some (Some (dict_get st ''data'' (PList []), dict_get st ''creditsUsed'' (PInt 0)))"
proof -
  from timeout_loop [OF assms(3) assms(4), of 0 "loop_clock w"]
  obtain m st where m: "m \<le> k" "response (polls w m) = Inr (PDict st)"
    "poll_loop (polls w) (start_clock w) (loop_clock w) 0 = Some (Inr (Some (PDict st)))"
    by auto
  with batch_break [OF assms(1,2) m(3)] show ?thesis by blast
qed

text \<open>At 1 of 3 for ever: after 301 seconds the call returns the one page and 1 credit.\<close>

theorem timeout_stops_witness:
  "batch_extract_and_watch (scripted_world (\<lambda>i. status_report ''scraping'' 1 3)) =
     Some (Some (PList [PDict [(''extract'', PStr ''text'')]], PInt 1))"
  using timeout_stops [of "scripted_world (\<lambda>i. status_report ''scraping'' 1 3)"
      "[(''success'', PBool True), (''id'', PStr ''job-1'')]" 60]
  by (simp add: scripted_simps in_progress_report dict_get_def)
     (auto simp: status_report_def dict_get_def)

section \<open>Exit codes of the two scripts\<close>

text \<open>A crawl that reports no success ends both scripts with code 1 and writes no file.\<close>

lemma main_crawl_failed:
  assumes "crawl_response ev = Inr (PDict cr)" and "\<not> py_truthy (dict_get cr ''success'' PNone)"
  shows "main_v2 str_of ev fs = Some (1, fs)" and "main_v1 str_of ev fs = (1, fs)"
  using assms by (simp_all add: main_v2_def main_v1_def)

text \<open>firecrawl-test.py ends with code 1 when the crawl found no page.\<close>

lemma main_v1_no_data:
  "crawl_response ev = crawl_found [] \<Longrightarrow> main_v1 str_of ev fs = (1, fs)"
  by (simp add: main_v1_def crawl_found_def dict_get_def)

text \<open>
  firecrawl-test-v2.py after the extraction has returned its pages: code 1 when no page
  gives a block or when the write fails, code 0 and the document otherwise.
\<close>

lemma main_v2_extracted:
  assumes "crawl_response ev = crawl_found crawled"
      and "source_urls crawled = Inr urls"
      and "batch_extract_and_watch (batch_job ev urls) = Some (Some (PList pages, credits))"
  shows "main_v2 str_of ev fs =
     Some (if process_pages str_of pages = [] then (1, fs)
           else if write_fault ev = None
             then (0, fs(OUTPUT_FILE \<mapsto> concat (document_parts (process_pages str_of pages))))
             else (1, snd (open_and_write (document_parts (process_pages str_of pages))
                            OUTPUT_FILE (write_fault ev) fs)))"
  using assms
  by (auto simp: main_v2_def crawl_found_def dict_get_def Let_def save_documentation_def
      open_and_write_def split: io_fault.splits)

lemma batch_completed_with:
  "batch_extract_and_watch (completed_with pages) = Some (Some (PList pages, PInt 0))"
proof -
  have ls: "loop_state (polls (completed_with pages)) (start_clock (completed_with pages))
      (loop_clock (completed_with pages)) 0 = Some 0"
    by (simp add: completed_with_def scripted_simps)
  have r: "response (polls (completed_with pages) 0) =
      Inr (PDict [(''status'', PStr ''completed''), (''data'', PList pages)])"
    by (simp add: completed_with_def scripted_simps)
  show ?thesis
    using batch_completed_at [OF _ _ ls r, of "[(''success'', PBool True), (''id'', PStr ''job-1'')]"]
    by (simp add: completed_with_def scripted_simps dict_get_def)
qed

text \<open>
  firecrawl-test-v2.py ends with code 1 when no extracted page has content, here on one
  page with an empty \<open>extract\<close> field.
\<close>

lemma main_v2_no_content_exit_1:
  "main_v2 str_of
     \<lparr>crawl_response = crawl_found [PDict [(''metadata'', sample_metadata)]],
      batch_job = (\<lambda>urls. completed_with
                     [PDict [(''extract'', PStr ''''), (''metadata'', sample_metadata)]]),
      write_fault = fault\<rparr> fs = Some (1, fs)"
proof -
  let ?page = "PDict [(''extract'', PStr ''''), (''metadata'', sample_metadata)]"
  let ?ev = "\<lparr>crawl_response = crawl_found [PDict [(''metadata'', sample_metadata)]],
      batch_job = (\<lambda>urls. completed_with [?page]), write_fault = fault\<rparr>"
  have "main_v2 str_of ?ev fs =
     Some (if process_pages str_of [?page] = [] then (1, fs)
           else if write_fault ?ev = None
             then (0, fs(OUTPUT_FILE \<mapsto> concat (document_parts (process_pages str_of [?page]))))
             else (1, snd (open_and_write (document_parts (process_pages str_of [?page]))
                            OUTPUT_FILE (write_fault ?ev) fs)))"
    by (rule main_v2_extracted [where crawled = "[PDict [(''metadata'', sample_metadata)]]"
          and urls = "[PStr ''http://d/'']" and credits = "PInt 0"])
      (simp_all add: batch_completed_with sample_metadata_def)
  then show ?thesis
    by (simp add: process_page_dict dict_get_def sample_metadata_def)
qed

text \<open>
  firecrawl-test-v2.py has no check for an empty list of URLs: it starts the batch job on
  the empty list, and when the vendor answers with a page the run ends with code 0.
\<close>

lemma main_v2_no_urls_exit_0:
  "main_v2 str_of
     \<lparr>crawl_response = crawl_found [],
      batch_job = (\<lambda>urls. completed_with [PDict [(''extract'', PStr ''Body'')]]),
      write_fault = None\<rparr> fs =
     Some (0, fs(OUTPUT_FILE \<mapsto>
       concat (document_parts [formatted_content ''Untitled'' ''Unknown URL'' ''Body''])))"
proof -
  let ?page = "PDict [(''extract'', PStr ''Body'')]"
  let ?ev = "\<lparr>crawl_response = crawl_found [],
      batch_job = (\<lambda>urls. completed_with [?page]), write_fault = None\<rparr>"
  have "main_v2 str_of ?ev fs =
     Some (if process_pages str_of [?page] = [] then (1, fs)
           else if write_fault ?ev = None
             then (0, fs(OUTPUT_FILE \<mapsto> concat (document_parts (process_pages str_of [?page]))))
             else (1, snd (open_and_write (document_parts (process_pages str_of [?page]))
                            OUTPUT_FILE (write_fault ?ev) fs)))"
    by (rule main_v2_extracted [where crawled = "[]" and urls = "[]" and credits = "PInt 0"])
      (simp_all add: batch_completed_with)
  then show ?thesis
    by (simp add: process_page_dict dict_get_def py_format_def formatted_content_nonempty)
qed

text \<open>
  firecrawl-test.py after a crawl that found pages: code 1 only when the write fails; when
  no page gives a block it writes nothing and ends with code 0.
\<close>

lemma main_v1_crawled:
  assumes "crawl_response ev = crawl_found pages" and "pages \<noteq> []"
      and "main_v1_pages str_of pages = Inr blocks"
  shows "main_v1 str_of ev fs =
     (if blocks = [] then (0, fs)
      else if write_fault ev = None
        then (0, fs(''technical_documentation.md'' \<mapsto> concat (document_parts blocks)))
        else (1, snd (open_and_write (document_parts blocks)
                       ''technical_documentation.md'' (write_fault ev) fs)))"
  using assms
  by (auto simp: main_v1_def crawl_found_def dict_get_def open_and_write_def
      split: io_fault.splits)

text \<open>
  C7. The claim holds for a failed crawl, for a write failure, for no URLs in
  firecrawl-test.py and for no content in firecrawl-test-v2.py. It fails in
  firecrawl-test.py when no page yields content: on a successful crawl of one page whose
  \<open>markdown\<close> is empty the run falls off the end of \<open>main\<close>, so it ends with code 0, and
  writes no file.
\<close>

theorem main_v1_no_content_exit_0:
  "main_v1 str_of
     \<lparr>crawl_response = crawl_found [PDict [(''markdown'', PStr ''''), (''metadata'', sample_metadata)]],
      batch_job = bj, write_fault = fault\<rparr> fs = (0, fs)"
  by (simp add: main_v1_def main_v1_page_def crawl_found_def dict_get_def sample_metadata_def)

text \<open>
  C6. The claim holds for \<open>process_page\<close> of firecrawl-test-v2.py on every page, and for
  firecrawl-test.py on the pages whose metadata is a dict or absent. It fails in
  firecrawl-test.py on a page without content whose \<open>metadata\<close> is \<open>None\<close>: the
  metadata is read before the content is tested, \<open>metadata.get\<close> raises, and the run
  ends with code 1 and writes no file, although the two other pages have content and the
  same run without that page ends with code 0 and writes both blocks. \<open>process_page\<close>
  gives no block for the same page, and the loop over the pages goes on.
\<close>

theorem main_v1_null_metadata_exit_1:
  "main_v1_page str_of (PDict [(''metadata'', PNone)]) = Inl AttributeError
   \<and> main_v1 str_of
        \<lparr>crawl_response = crawl_found
           [PDict [(''markdown'', PStr ''A'')], PDict [(''metadata'', PNone)],
            PDict [(''markdown'', PStr ''B'')]],
         batch_job = bj, write_fault = None\<rparr> fs = (1, fs)
   \<and> main_v1 str_of
        \<lparr>crawl_response = crawl_found
           [PDict [(''markdown'', PStr ''A'')], PDict [(''markdown'', PStr ''B'')]],
         batch_job = bj, write_fault = None\<rparr> fs =
       (0, fs(''technical_documentation.md'' \<mapsto>
              concat (document_parts [formatted_content ''Untitled'' ''Unknown URL'' ''A'',
                                      formatted_content ''Untitled'' ''Unknown URL'' ''B''])))
   \<and> process_page str_of (PDict [(''metadata'', PNone)]) = None
   \<and> process_pages str_of
        [PDict [(''extract'', PStr ''A'')], PDict [(''metadata'', PNone)],
         PDict [(''extract'', PStr ''B'')]] =
       [formatted_content ''Untitled'' ''Unknown URL'' ''A'',
        formatted_content ''Untitled'' ''Unknown URL'' ''B'']"
proof -
  have page: "main_v1_page str_of (PDict [(''metadata'', PNone)]) = Inl AttributeError"
    by (simp add: main_v1_page_def dict_get_def)
  have a: "main_v1_page str_of (PDict [(''markdown'', PStr ''A'')]) =
      Inr (Some (formatted_content ''Untitled'' ''Unknown URL'' ''A''))"
    and b: "main_v1_page str_of (PDict [(''markdown'', PStr ''B'')]) =
      Inr (Some (formatted_content ''Untitled'' ''Unknown URL'' ''B''))"
    by (simp_all add: main_v1_page_def dict_get_def py_format_def)
  have fails: "main_v1 str_of
        \<lparr>crawl_response = crawl_found
           [PDict [(''markdown'', PStr ''A'')], PDict [(''metadata'', PNone)],
            PDict [(''markdown'', PStr ''B'')]],
         batch_job = bj, write_fault = None\<rparr> fs = (1, fs)"
    by (simp add: main_v1_def crawl_found_def dict_get_def page a b)
  have runs: "main_v1 str_of
        \<lparr>crawl_response = crawl_found
           [PDict [(''markdown'', PStr ''A'')], PDict [(''markdown'', PStr ''B'')]],
         batch_job = bj, write_fault = None\<rparr> fs =
       (0, fs(''technical_documentation.md'' \<mapsto>
              concat (document_parts [formatted_content ''Untitled'' ''Unknown URL'' ''A'',
                                      formatted_content ''Untitled'' ''Unknown URL'' ''B''])))"
    by (simp add: main_v1_def crawl_found_def dict_get_def a b open_and_write_def)
  have skipped: "process_page str_of (PDict [(''metadata'', PNone)]) = None"
    by (simp add: process_page_dict dict_get_def)
  have blocks: "process_pages str_of
        [PDict [(''extract'', PStr ''A'')], PDict [(''metadata'', PNone)],
         PDict [(''extract'', PStr ''B'')]] =
       [formatted_content ''Untitled'' ''Unknown URL'' ''A'',
        formatted_content ''Untitled'' ''Unknown URL'' ''B'']"
    by (simp add: process_page_dict dict_get_def py_format_def formatted_content_nonempty)
  from page fails runs skipped blocks show ?thesis by simp
qed

end
